theory Spec2Isabelle
  imports Main "HOL-Library.Word"
begin

section \<open>Bytes, errors and outcomes\<close>

type_synonym byte = "8 word"

text \<open>
  The error sentinels of package \<open>errors\<close> that the short-message code returns, the
  buffer errors of \<open>ByteBuffer\<close>, and a carrier for the errors that an encoding or the
  UDH parser of its own reports.
\<close>

datatype error =
    ErrShortMessageLengthTooLarge
  | ErrUDHTooLong
  | ErrEOF
  | ErrBufferNotEnoughByteToRead
  | ErrOther string

text \<open>
  A Go call either returns or panics (here: a method call on a nil interface value).
\<close>

datatype 'a outcome = Panic | Returned 'a

section \<open>The collaborators of \<open>ShortMessage\<close>\<close>

subsection \<open>Encodings\<close>

text \<open>
  \<open>data.Encoding\<close> is an interface (\<open>Encode\<close>, \<open>Decode\<close>, \<open>DataCoding\<close>); an encoding
  may also implement \<open>data.Splitter\<close> (\<open>ShouldSplit\<close>, \<open>EncodeSplit\<close>).  The package is
  not part of the sources at hand, so an encoding is a value carrying its methods, and
  the type assertion \<open>encoding.(data.Splitter)\<close> is the field \<open>splitter\<close>.  A Go method
  returning \<open>(value, err)\<close> returns a pair here; \<open>err == nil\<close> is \<open>None\<close>.
\<close>

record Splitter =
  ShouldSplit :: "string \<Rightarrow> nat \<Rightarrow> bool"
  EncodeSplit :: "string \<Rightarrow> nat \<Rightarrow> byte list list \<times> error option"

record Encoding =
  Encode :: "string \<Rightarrow> byte list \<times> error option"
  Decode :: "byte list \<Rightarrow> string \<times> error option"
  DataCoding :: byte
  splitter :: "Splitter option"

text \<open>
  Modelled from the spec: the constants \<open>data.SM_MSG_LEN\<close> and \<open>data.SM_GSM_MSG_LEN\<close>
  are declared in package \<open>data\<close>.  The spec gives 254 octets for the short-message body
  and 140 octets for the single-segment limit (the source's own note speaks of the
  "134 octet limit" that remains after the 6 reserved octets).
\<close>

definition SM_MSG_LEN :: nat where
  "SM_MSG_LEN = 254"

definition SM_GSM_MSG_LEN :: nat where
  "SM_GSM_MSG_LEN = 140"

subsection \<open>User data header\<close>

datatype InfoElement = InfoElement (ID: byte) (Data: "byte list")

type_synonym UDH = "InfoElement list"

text \<open>
  Modelled from the spec: \<open>NewIEConcatMessage\<close>, \<open>UDH.UDHL\<close>, \<open>UDH.MarshalBinary\<close> and
  \<open>UDH.UnmarshalBinary\<close> live in a file of package \<open>pdu\<close> that is not at hand.  The spec:
  a concatenation IE has tag 0x00, length 3 and value (reference, total-parts,
  part-index); the total octet size of a UDH is the sum of the element sizes plus 2
  bytes per element; on the wire the first octet carries that size and the elements
  follow as tag, length, value.
\<close>

definition NewIEConcatMessage :: "byte \<Rightarrow> byte \<Rightarrow> byte \<Rightarrow> InfoElement" where
  "NewIEConcatMessage totalParts partNum mref = InfoElement 0 [mref, totalParts, partNum]"

fun UDHL :: "UDH \<Rightarrow> nat" where
  "UDHL [] = 0"
| "UDHL (e # u) = length (Data e) + 2 + UDHL u"

fun marshalIEs :: "UDH \<Rightarrow> byte list" where
  "marshalIEs [] = []"
| "marshalIEs (e # u) = ID e # of_nat (length (Data e)) # Data e @ marshalIEs u"

definition MarshalBinary :: "UDH \<Rightarrow> byte list" where
  "MarshalBinary u = (if u = [] then [] else of_nat (UDHL u) # marshalIEs u)"

text \<open>
  The parser reads the elements out of the octets that the length octet announces;
  the fuel is the number of octets left, which every element read decreases.
\<close>

fun unmarshalIEs :: "nat \<Rightarrow> byte list \<Rightarrow> UDH \<times> error option" where
  "unmarshalIEs 0 bs = ([], if bs = [] then None else Some (ErrOther ''truncated UDH''))"
| "unmarshalIEs (Suc k) [] = ([], None)"
| "unmarshalIEs (Suc k) [t] = ([], Some (ErrOther ''truncated UDH''))"
| "unmarshalIEs (Suc k) (t # l # bs) =
     (if length bs < unat l then ([], Some (ErrOther ''truncated UDH''))
      else (case unmarshalIEs k (drop (unat l) bs) of
              (u, e) \<Rightarrow> (InfoElement t (take (unat l) bs) # u, e)))"

definition UnmarshalBinary :: "byte list \<Rightarrow> UDH \<times> error option" where
  "UnmarshalBinary src =
     (case src of
        [] \<Rightarrow> ([], Some (ErrOther ''truncated UDH''))
      | l # bs \<Rightarrow>
          if length bs < unat l then ([], Some (ErrOther ''truncated UDH''))
          else unmarshalIEs (unat l) (take (unat l) bs))"

subsection \<open>Byte buffer\<close>

text \<open>
  Modelled from the spec: \<open>ByteBuffer\<close> is declared in a file of package \<open>pdu\<close> that is not
  at hand.  The spec reads and writes single octets and runs of \<open>n\<close> octets; a buffer is
  the list of octets not yet read, written at its end.  A read that cannot be served
  returns the zero value and an error and consumes nothing.
\<close>

type_synonym ByteBuffer = "byte list"

definition WriteByte :: "ByteBuffer \<Rightarrow> byte \<Rightarrow> ByteBuffer" where
  "WriteByte b x = b @ [x]"

definition Write :: "ByteBuffer \<Rightarrow> byte list \<Rightarrow> ByteBuffer" where
  "Write b xs = b @ xs"

definition ReadByte :: "ByteBuffer \<Rightarrow> byte \<times> ByteBuffer \<times> error option" where
  "ReadByte b = (case b of [] \<Rightarrow> (0, [], Some ErrEOF) | x # r \<Rightarrow> (x, r, None))"

definition ReadN :: "ByteBuffer \<Rightarrow> nat \<Rightarrow> byte list \<times> ByteBuffer \<times> error option" where
  "ReadN b n =
     (if n > 0 then
        (if length b \<ge> n then (take n b, drop n b, None)
         else ([], b, Some ErrBufferNotEnoughByteToRead))
      else ([], b, None))"

section \<open>ShortMessage\<close>

text \<open>
  The struct of the source.  The interface value \<open>enc\<close> may be nil (\<open>None\<close>); a nil
  slice and an empty slice are both \<open>[]\<close> (the code only takes their length).
\<close>

record ShortMessage =
  SmDefaultMsgID :: byte
  dataCoding :: byte
  message :: string
  enc :: "Encoding option"
  udHeader :: UDH
  messageData :: "byte list"
  withoutDataCoding :: bool

text \<open>The zero value \<open>ShortMessage{}\<close>.\<close>

definition zeroShortMessage :: ShortMessage where
  "zeroShortMessage =
     \<lparr>SmDefaultMsgID = 0, dataCoding = 0, message = [], enc = None, udHeader = [],
      messageData = [], withoutDataCoding = False\<rparr>"

text \<open>
  \<open>SetMessageWithEncoding\<close>: the first result of \<open>Encode\<close> is stored in \<open>messageData\<close>
  whatever the error; the other fields change only when the encoded form fits.
  Calling \<open>Encode\<close> on a nil encoding panics.
\<close>

definition SetMessageWithEncoding ::
  "ShortMessage \<Rightarrow> string \<Rightarrow> Encoding option \<Rightarrow> (ShortMessage \<times> error option) outcome" where
  "SetMessageWithEncoding c msg en =
     (case en of
        None \<Rightarrow> Panic
      | Some e \<Rightarrow>
          (case Encode e msg of
             (md, Some err) \<Rightarrow> Returned (c\<lparr>messageData := md\<rparr>, Some err)
           | (md, None) \<Rightarrow>
               if length md > SM_MSG_LEN
               then Returned (c\<lparr>messageData := md\<rparr>, Some ErrShortMessageLengthTooLarge)
               else Returned (c\<lparr>messageData := md, message := msg, enc := Some e,
                                dataCoding := DataCoding e\<rparr>, None)))"

text \<open>
  \<open>SetDataCoding\<close>: the encoding comes from the registry \<open>data.FromDataCoding\<close>, which
  is not at hand and is a parameter.
\<close>

definition SetDataCoding ::
  "(byte \<Rightarrow> Encoding option) \<Rightarrow> ShortMessage \<Rightarrow> byte \<Rightarrow> ShortMessage" where
  "SetDataCoding FromDataCoding c coding =
     c\<lparr>dataCoding := coding, enc := FromDataCoding coding\<rparr>"

text \<open>
  \<open>GetMessageData\<close> returns \<open>(data, err)\<close>; the early return on an empty
  \<open>messageData\<close> returns the zero values \<open>(nil, nil)\<close>.
\<close>

definition GetMessageData :: "ShortMessage \<Rightarrow> byte list \<times> error option" where
  "GetMessageData c =
     (if length (messageData c) = 0 then ([], None)
      else
        (let t = length (messageData c);
             f = UDHL (udHeader c)
         in if f \<ge> t then ([], Some ErrUDHTooLong)
            else (take (t - f) (drop f (messageData c)), None)))"

text \<open>
  \<open>Marshal\<close>: \<open>n\<close> is the length cut to one byte; the UDH is prepended when there is
  one; \<open>b.Grow\<close> only reserves room.
\<close>

definition Marshal :: "ShortMessage \<Rightarrow> ByteBuffer \<Rightarrow> ByteBuffer" where
  "Marshal c b =
     (let n = (of_nat (length (messageData c)) :: byte);
          udhBin = (if udHeader c \<noteq> [] \<and> UDHL (udHeader c) > 0
                    then Some (MarshalBinary (udHeader c)) else None);
          b1 = (if \<not> withoutDataCoding c then WriteByte b (dataCoding c) else b);
          b2 = WriteByte b1 (SmDefaultMsgID c);
          b3 = (case udhBin of
                  Some ub \<Rightarrow> Write (WriteByte b2 (of_nat (unat n + length ub))) ub
                | None \<Rightarrow> WriteByte b2 n)
      in Write b3 (take (unat n) (messageData c)))"

text \<open>
  \<open>Unmarshal\<close> returns the receiver as it stands at the return, the rest of the buffer
  and the error.  Each assignment \<open>x, err = read\<close> stores the value read before the
  error is looked at.
\<close>

definition Unmarshal ::
  "(byte \<Rightarrow> Encoding option) \<Rightarrow> ShortMessage \<Rightarrow> ByteBuffer \<Rightarrow> bool \<Rightarrow>
   ShortMessage \<times> ByteBuffer \<times> error option" where
  "Unmarshal FromDataCoding c b udhi =
     (case (if \<not> withoutDataCoding c then ReadByte b else (0, b, None)) of
        (dc, b1, Some err) \<Rightarrow> (c, b1, Some err)
      | (dc, b1, None) \<Rightarrow>
          (case ReadByte b1 of
             (d, b2, Some err) \<Rightarrow> (c\<lparr>SmDefaultMsgID := d\<rparr>, b2, Some err)
           | (d, b2, None) \<Rightarrow>
               (case ReadByte b2 of
                  (n, b3, Some err) \<Rightarrow> (c\<lparr>SmDefaultMsgID := d\<rparr>, b3, Some err)
                | (n, b3, None) \<Rightarrow>
                    (case ReadN b3 (unat n) of
                       (md, b4, Some err) \<Rightarrow>
                         (c\<lparr>SmDefaultMsgID := d, messageData := md\<rparr>, b4, Some err)
                     | (md, b4, None) \<Rightarrow>
                         (let c3 = SetDataCoding FromDataCoding
                                     (c\<lparr>SmDefaultMsgID := d, messageData := md\<rparr>) dc
                          in if udhi \<and> n > 0 then
                               (case UnmarshalBinary (messageData c3) of
                                  (udh, Some err) \<Rightarrow> (c3, b4, Some err)
                                | (udh, None) \<Rightarrow> (c3\<lparr>udHeader := udh\<rparr>, b4, None))
                             else (c3, b4, None))))))"

subsection \<open>Split\<close>

text \<open>
  The process-wide counter \<open>ref\<close> is passed in and returned; \<open>getRefNum\<close> returns the
  incremented value.
\<close>

definition getRefNum :: "32 word \<Rightarrow> 32 word" where
  "getRefNum r = r + 1"

text \<open>
  \<open>Split\<close> returns pointers: to the receiver itself, or to a newly allocated message.
\<close>

datatype SmPtr = Self | Fresh ShortMessage

text \<open>
  The loop \<open>for i, seg := range segments\<close>.  Each turn calls \<open>c.enc.DataCoding()\<close>, which
  panics on a nil encoding.  \<open>tot\<close> is \<open>uint8(len(segments))\<close> and \<open>r\<close> is \<open>uint8(ref)\<close>.
\<close>

fun Split_loop :: "ShortMessage \<Rightarrow> byte \<Rightarrow> byte \<Rightarrow> nat \<Rightarrow> byte list list \<Rightarrow> SmPtr list outcome" where
  "Split_loop c tot r i [] = Returned []"
| "Split_loop c tot r i (seg # segs) =
     (case enc c of
        None \<Rightarrow> Panic
      | Some e \<Rightarrow>
          (case Split_loop c tot r (i + 1) segs of
             Panic \<Rightarrow> Panic
           | Returned rest \<Rightarrow>
               Returned (Fresh \<lparr>SmDefaultMsgID = 0, dataCoding = DataCoding e, message = [],
                                enc = enc c,
                                udHeader = [NewIEConcatMessage tot (of_nat (i + 1)) r],
                                messageData = seg,
                                withoutDataCoding = withoutDataCoding c\<rparr> # rest)))"

text \<open>
  \<open>Split\<close>.  \<open>data.GSM7BIT\<close>, the default encoding of package \<open>data\<close>, is a parameter.
  The result is the receiver after the call, the counter, the slice and the error.
\<close>

definition Split ::
  "Encoding \<Rightarrow> 32 word \<Rightarrow> ShortMessage \<Rightarrow>
   (ShortMessage \<times> 32 word \<times> SmPtr list \<times> error option) outcome" where
  "Split GSM7BIT rf c =
     (let encoding = (case enc c of None \<Rightarrow> GSM7BIT | Some e \<Rightarrow> e);
          single = (case SetMessageWithEncoding c (message c) (enc c) of
                      Panic \<Rightarrow> Panic
                    | Returned (c', err) \<Rightarrow> Returned (c', rf, [Self], err))
      in case splitter encoding of
           None \<Rightarrow> single
         | Some sp \<Rightarrow>
             if \<not> ShouldSplit sp (message c) SM_GSM_MSG_LEN then single
             else
               (case EncodeSplit sp (message c) (SM_GSM_MSG_LEN - 6) of
                  (segments, Some err) \<Rightarrow> Returned (c, rf, [], Some err)
                | (segments, None) \<Rightarrow>
                    (let r = getRefNum rf in
                     case Split_loop c (of_nat (length segments)) (ucast r) 0 segments of
                       Panic \<Rightarrow> Panic
                     | Returned multiSM \<Rightarrow> Returned (c, r, multiSM, None))))"

text \<open>Reading a result of \<open>Split\<close>: the slice, the error, and the fields of a concatenation UDH.\<close>

fun returnedSlice :: "(ShortMessage \<times> 32 word \<times> SmPtr list \<times> error option) outcome \<Rightarrow> SmPtr list" where
  "returnedSlice Panic = []"
| "returnedSlice (Returned (c, r, ms, e)) = ms"

fun returnedError :: "(ShortMessage \<times> 32 word \<times> SmPtr list \<times> error option) outcome \<Rightarrow> error option" where
  "returnedError Panic = None"
| "returnedError (Returned (c, r, ms, e)) = e"

fun freshOf :: "SmPtr \<Rightarrow> ShortMessage" where
  "freshOf Self = zeroShortMessage"
| "freshOf (Fresh s) = s"

fun concatFields :: "UDH \<Rightarrow> (byte \<times> byte \<times> byte) option" where
  "concatFields [InfoElement t [r, n, i]] = (if t = 0 then Some (r, n, i) else None)"
| "concatFields u = None"

definition concatRef :: "ShortMessage \<Rightarrow> nat option" where
  "concatRef s = map_option (\<lambda>(r, n, i). unat r) (concatFields (udHeader s))"

definition concatTotal :: "ShortMessage \<Rightarrow> nat option" where
  "concatTotal s = map_option (\<lambda>(r, n, i). unat n) (concatFields (udHeader s))"

definition concatIndex :: "ShortMessage \<Rightarrow> nat option" where
  "concatIndex s = map_option (\<lambda>(r, n, i). unat i) (concatFields (udHeader s))"

subsection \<open>Two encodings to run the code on\<close>

text \<open>
  An encoding of one octet per character without the Splitter capability, and the same
  encoding with a Splitter that cuts the octets at the limit.
\<close>

function chunks :: "nat \<Rightarrow> 'a list \<Rightarrow> 'a list list" where
  "chunks n xs = (if n = 0 \<or> xs = [] then [] else take n xs # chunks n (drop n xs))"
  by pat_completeness auto
termination
  by (relation "measure (\<lambda>(n, xs). length xs)") auto

definition octetEncoding :: Encoding where
  "octetEncoding =
     \<lparr>Encode = (\<lambda>msg. (map of_char msg, None)),
      Decode = (\<lambda>bs. (map (\<lambda>b. char_of (unat b)) bs, None)),
      DataCoding = 3,
      splitter = None\<rparr>"

definition octetSplitter :: Splitter where
  "octetSplitter =
     \<lparr>ShouldSplit = (\<lambda>msg limit. length msg > limit),
      EncodeSplit = (\<lambda>msg limit. (chunks limit (map of_char msg), None))\<rparr>"

definition octetSplitEncoding :: Encoding where
  "octetSplitEncoding = octetEncoding\<lparr>splitter := Some octetSplitter\<rparr>"

text \<open>A registry: coding 3 is the octet encoding, every other coding has none.\<close>

definition octetRegistry :: "byte \<Rightarrow> Encoding option" where
  "octetRegistry coding = (if coding = 3 then Some octetEncoding else None)"

section \<open>Writer\<close>

text \<open>
  \<open>time.Duration\<close> counts nanoseconds.  The closing states are those of the \<open>State\<close>
  enumeration that the engines pass to \<open>close\<close> and to the \<open>onClosed\<close> callbacks.
\<close>

type_synonym Duration = int

definition Second :: Duration where
  "Second = 1000000000"

definition EnquireLinkIntervalMinimum :: Duration where
  "EnquireLinkIntervalMinimum = 20 * Second"

datatype State = ExplicitClosing | StoppingProcessOnly | ConnectionIssue | InvalidStreaming | UnbindClosing

datatype PDU = EnquireLinkPDU | UnbindPDU | OtherPDU nat

text \<open>
  A Go \<open>error\<close> as \<open>check\<close> looks at it: either it implements \<open>net.Error\<close>, with its
  answers to \<open>Timeout()\<close> and \<open>Temporary()\<close>, or it does not.
\<close>

datatype neterror = NetError (Timeout: bool) (Temporary: bool) | PlainError string

text \<open>
  The settings of the writer.  A callback is a flag here: whether it is non-nil; a
  call of it is an effect.  The \<open>onClosed\<close> callback that \<open>newClient\<close> installs is the
  function \<open>writer_onClosed\<close> of the Client section.
\<close>

record writerSettings =
  timeout :: Duration
  enquireLink :: Duration
  onSubmitError :: bool

definition normalize :: "writerSettings \<Rightarrow> writerSettings" where
  "normalize s =
     (if enquireLink s \<le> EnquireLinkIntervalMinimum
      then s\<lparr>enquireLink := EnquireLinkIntervalMinimum\<rparr> else s)"

record writer =
  w_settings :: writerSettings
  w_state :: int

definition newWriter :: "writerSettings \<Rightarrow> writer" where
  "newWriter settings = \<lparr>w_settings = normalize settings, w_state = 0\<rparr>"

text \<open>\<open>start\<close> launches one of the two loops.\<close>

datatype loopKind = Loop | LoopWithEnquireLink

definition start :: "writer \<Rightarrow> loopKind" where
  "start t = (if enquireLink (w_settings t) > 0 then LoopWithEnquireLink else Loop)"

text \<open>
  What \<open>check\<close> does besides returning: it calls \<open>onSubmitError\<close> and it starts the
  goroutine \<open>go t.close(state)\<close>.
\<close>

datatype effect = CallOnSubmitError PDU neterror | GoClose State | ConnWrite PDU

definition check :: "writer \<Rightarrow> PDU \<Rightarrow> int \<Rightarrow> neterror option \<Rightarrow> bool \<times> effect list" where
  "check t p n err =
     (case err of
        None \<Rightarrow> (False, [])
      | Some e \<Rightarrow>
          (let notified = (if onSubmitError (w_settings t) then [CallOnSubmitError p e] else []);
               closing =
                 (if n = 0 then
                    (case e of
                       NetError tmo tmp \<Rightarrow> tmo \<or> \<not> tmp
                     | PlainError m \<Rightarrow> True)
                  else True)
           in (closing, notified @ (if closing then [GoClose ConnectionIssue] else []))))"

text \<open>
  The loops, run on a schedule: what each \<open>select\<close> (or each receive from \<open>input\<close>)
  yields, with the result \<open>(n, err)\<close> of the write that follows.  A tick can only be
  selected where there is a ticker.  The result is the list of effects up to the
  return of the loop; a schedule that ends leaves the loop blocked.
\<close>

datatype selected =
    Tick "int \<times> neterror option"
  | Recv "PDU option" "int \<times> neterror option"
  | InputClosed

fun loop :: "writer \<Rightarrow> selected list \<Rightarrow> effect list" where
  "loop t [] = []"
| "loop t (InputClosed # evs) = []"
| "loop t (Tick res # evs) = loop t evs"
| "loop t (Recv None res # evs) = loop t evs"
| "loop t (Recv (Some p) (n, err) # evs) =
     (case check t p n err of
        (closing, effs) \<Rightarrow> ConnWrite p # effs @ (if closing then [] else loop t evs))"

definition tickerPeriod :: "writer \<Rightarrow> Duration" where
  "tickerPeriod t =
     (if enquireLink (w_settings t) < EnquireLinkIntervalMinimum
      then EnquireLinkIntervalMinimum else enquireLink (w_settings t))"

fun loopWithEnquireLink :: "writer \<Rightarrow> selected list \<Rightarrow> effect list" where
  "loopWithEnquireLink t [] = []"
| "loopWithEnquireLink t (InputClosed # evs) = []"
| "loopWithEnquireLink t (Tick (n, err) # evs) =
     (case check t EnquireLinkPDU n err of
        (closing, effs) \<Rightarrow>
          ConnWrite EnquireLinkPDU # effs @ (if closing then [] else loopWithEnquireLink t evs))"
| "loopWithEnquireLink t (Recv None res # evs) = loopWithEnquireLink t evs"
| "loopWithEnquireLink t (Recv (Some p) (n, err) # evs) =
     (case check t p n err of
        (closing, effs) \<Rightarrow>
          ConnWrite p # effs @ (if closing then [] else loopWithEnquireLink t evs))"

definition run :: "writer \<Rightarrow> selected list \<Rightarrow> effect list" where
  "run t evs = (case start t of Loop \<Rightarrow> loop t evs | LoopWithEnquireLink \<Rightarrow> loopWithEnquireLink t evs)"

section \<open>Reader\<close>

definition defaultReadTimeout :: Duration where
  "defaultReadTimeout = 2 * Second"

record reader =
  r_timeout :: Duration
  r_state :: int

text \<open>\<open>newReader\<close>, with \<open>readerSettings.normalize\<close> applied to the timeout.\<close>

definition newReader :: "Duration \<Rightarrow> reader" where
  "newReader tmo = \<lparr>r_timeout = (if tmo \<le> 0 then defaultReadTimeout else tmo), r_state = 0\<rparr>"

section \<open>Client\<close>

text \<open>
  The settings of a client; a callback is a flag (whether it is non-nil).  The
  connection carries the system id of the bind response and whether it is open.
\<close>

record clientSettings =
  WriteTimeout :: Duration
  ReadTimeout :: Duration
  EnquireLink :: Duration
  OnPDU :: bool
  OnSubmitError :: bool
  OnReceivingError :: bool
  OnRebindingError :: bool
  OnClosed :: bool

record Connection =
  systemID :: string
  conn_open :: bool

text \<open>
  What the close paths do, in order: the bodies of \<open>writer.close\<close> and \<open>reader.close\<close>
  that ran, with their state, the Unbind written, every \<open>conn.Close()\<close> with the party
  that called it, and every call of the user's \<open>OnClosed\<close>.
\<close>

datatype party = ByWriter | ByReader | ByClient

datatype event =
    WriterClose State
  | ReaderClose State
  | WriteUnbind
  | ConnClose party
  | OnClosedCall State

record client =
  settings :: clientSettings
  conn :: Connection
  reader :: reader
  writer :: writer
  client_state :: int
  trace :: "event list"

definition emit :: "event \<Rightarrow> client \<Rightarrow> client" where
  "emit ev c = c\<lparr>trace := trace c @ [ev]\<rparr>"

definition conn_Close :: "party \<Rightarrow> client \<Rightarrow> client" where
  "conn_Close who c = emit (ConnClose who) (c\<lparr>conn := (conn c)\<lparr>conn_open := False\<rparr>\<rparr>)"

definition notifyOnClosed :: "State \<Rightarrow> client \<Rightarrow> client" where
  "notifyOnClosed st c = (if OnClosed (settings c) then emit (OnClosedCall st) c else c)"

text \<open>
  \<open>writer.close\<close> and \<open>reader.close\<close> with the callbacks that \<open>newClient\<close> wires into
  them.  \<open>Close()\<close> of an engine is its \<open>close(ExplicitClosing)\<close>.  The writer sets its
  flag after the callback, the reader swaps its flag first.  The calls nest at most
  once: a callback closes the peer with \<open>ExplicitClosing\<close>, which the peer's callback
  absorbs.
\<close>

fun closeRank :: "State \<Rightarrow> nat" where
  "closeRank ExplicitClosing = 0"
| "closeRank st = 1"

function (sequential)
  writer_close :: "State \<Rightarrow> client \<Rightarrow> client" and
  writer_onClosed :: "State \<Rightarrow> client \<Rightarrow> client" and
  reader_close :: "State \<Rightarrow> client \<Rightarrow> client" and
  reader_onClosed :: "State \<Rightarrow> client \<Rightarrow> client"
where
  "writer_close st c =
     (if w_state (writer c) = 0 then
        (let c1 = emit WriteUnbind (emit (WriterClose st) c);
             c2 = (if st \<noteq> StoppingProcessOnly then conn_Close ByWriter c1 else c1);
             c3 = writer_onClosed st c2
         in c3\<lparr>writer := (writer c3)\<lparr>w_state := 1\<rparr>\<rparr>)
      else c)"
| "writer_onClosed ExplicitClosing c = c"
| "writer_onClosed ConnectionIssue c =
     notifyOnClosed ConnectionIssue (reader_close ExplicitClosing c)"
| "writer_onClosed st c = c"
| "reader_close st c =
     (if r_state (reader c) = 0 then
        (let c1 = emit (ReaderClose st) (c\<lparr>reader := (reader c)\<lparr>r_state := 1\<rparr>\<rparr>);
             c2 = (if st \<noteq> StoppingProcessOnly then conn_Close ByReader c1 else c1)
         in reader_onClosed st c2)
      else c)"
| "reader_onClosed ExplicitClosing c = c"
| "reader_onClosed InvalidStreaming c =
     notifyOnClosed InvalidStreaming (writer_close ExplicitClosing c)"
| "reader_onClosed UnbindClosing c =
     notifyOnClosed UnbindClosing (writer_close ExplicitClosing c)"
| "reader_onClosed st c = c"
  by pat_completeness auto
termination
  by (relation "measure (\<lambda>x. case x of
          Inl (Inl (st, c)) \<Rightarrow> 2 * closeRank st + 1
        | Inl (Inr (st, c)) \<Rightarrow> 2 * closeRank st
        | Inr (Inl (st, c)) \<Rightarrow> 2 * closeRank st + 1
        | Inr (Inr (st, c)) \<Rightarrow> 2 * closeRank st)") auto

text \<open>\<open>client.Close\<close>.\<close>

definition client_Close :: "client \<Rightarrow> client" where
  "client_Close c =
     (if client_state c = 0 then
        (let c0 = c\<lparr>client_state := 1\<rparr>;
             c1 = writer_close StoppingProcessOnly c0;
             c2 = reader_close StoppingProcessOnly c1;
             c3 = conn_Close ByClient c2
         in notifyOnClosed ExplicitClosing c3)
      else c)"

text \<open>
  \<open>newClient\<close>: the writer and the reader are built from the client's settings and
  started; nothing is closed yet.
\<close>

definition newClient :: "Connection \<Rightarrow> clientSettings \<Rightarrow> client" where
  "newClient cn st =
     \<lparr>settings = st, conn = cn,
      reader = newReader (ReadTimeout st),
      writer = newWriter \<lparr>timeout = WriteTimeout st, enquireLink = EnquireLink st,
                          onSubmitError = OnSubmitError st\<rparr>,
      client_state = 0, trace = []\<rparr>"

section \<open>Session\<close>

datatype BindingType = Receiver | Transmitter | Transceiver

record Auth =
  SMSC :: string
  SystemID :: string
  Password :: string
  SystemType :: string

text \<open>
  The bind request of package \<open>pdu\<close>, with the fields that \<open>newBindRequest\<close> sets.
\<close>

datatype BindRequest =
  BindRequest (reqBindingType: BindingType) (reqSystemID: string) (reqPassword: string)
    (reqSystemType: string)

definition newBindRequest :: "Auth \<Rightarrow> BindingType \<Rightarrow> BindRequest" where
  "newBindRequest s b = BindRequest b (SystemID s) (Password s) (SystemType s)"

text \<open>
  \<open>connect\<close> (dial, send the bind request, read the bind response) is not at hand and is
  a parameter: from the dialer, the address and the bind request to an error or a
  bound connection.
\<close>

type_synonym 'd connect = "'d \<Rightarrow> string \<Rightarrow> BindRequest \<Rightarrow> error + Connection"

definition connectAs :: "'d connect \<Rightarrow> BindingType \<Rightarrow> 'd \<Rightarrow> Auth \<Rightarrow> error + Connection" where
  "connectAs connect b dl s = connect dl (SMSC s) (newBindRequest s b)"

definition ConnectAsReceiver :: "'d connect \<Rightarrow> 'd \<Rightarrow> Auth \<Rightarrow> error + Connection" where
  "ConnectAsReceiver connect dl s = connectAs connect Receiver dl s"

definition ConnectAsTransmitter :: "'d connect \<Rightarrow> 'd \<Rightarrow> Auth \<Rightarrow> error + Connection" where
  "ConnectAsTransmitter connect dl s = connectAs connect Transmitter dl s"

definition ConnectAsTransceiver :: "'d connect \<Rightarrow> 'd \<Rightarrow> Auth \<Rightarrow> error + Connection" where
  "ConnectAsTransceiver connect dl s = connectAs connect Transceiver dl s"

text \<open>
  The session.  \<open>autoRebind\<close> says whether \<open>newSession\<close> wrapped \<open>OnClosed\<close> into the
  closure that rebinds (\<open>rebindingInterval > 0\<close>); \<open>s_r\<close> is the client stored in \<open>r\<close>.
\<close>

record 'd session =
  dialer :: 'd
  auth :: Auth
  originalOnClosed :: bool
  s_settings :: clientSettings
  autoRebind :: bool
  bindingType :: BindingType
  rebindingInterval :: Duration
  s_r :: client
  s_state :: int
  rebinding :: int

definition newSession ::
  "'d connect \<Rightarrow> BindingType \<Rightarrow> 'd \<Rightarrow> Auth \<Rightarrow> clientSettings \<Rightarrow> Duration \<Rightarrow> error + 'd session" where
  "newSession connect b dl au st interval =
     (case connectAs connect b dl au of
        Inl err \<Rightarrow> Inl err
      | Inr cn \<Rightarrow>
          (let st' = (if interval > 0 then st\<lparr>OnClosed := True\<rparr> else st)
           in Inr \<lparr>dialer = dl, auth = au, originalOnClosed = OnClosed st, s_settings = st',
                   autoRebind = (interval > 0), bindingType = b,
                   rebindingInterval = interval, s_r = newClient cn st',
                   s_state = 0, rebinding = 0\<rparr>))"

definition NewReceiverSession ::
  "'d connect \<Rightarrow> 'd \<Rightarrow> Auth \<Rightarrow> clientSettings \<Rightarrow> Duration \<Rightarrow> error + 'd session" where
  "NewReceiverSession connect dl au st interval =
     newSession connect Transmitter dl au st interval"

definition NewTransmitterSession ::
  "'d connect \<Rightarrow> 'd \<Rightarrow> Auth \<Rightarrow> clientSettings \<Rightarrow> Duration \<Rightarrow> error + 'd session" where
  "NewTransmitterSession connect dl au st interval =
     newSession connect Transmitter dl au st interval"

definition NewTransceiverSession ::
  "'d connect \<Rightarrow> 'd \<Rightarrow> Auth \<Rightarrow> clientSettings \<Rightarrow> Duration \<Rightarrow> error + 'd session" where
  "NewTransceiverSession connect dl au st interval =
     newSession connect Transceiver dl au st interval"

text \<open>
  \<open>rebind\<close>.  The dial attempts are numbered, so that an attempt may fail and a later
  one succeed; the loop has no bound, and a world in which every attempt fails keeps
  it running (\<open>None\<close>).  The result also lists the bind requests sent.
\<close>

partial_function (option) rebind_loop ::
  "(nat \<Rightarrow> 'd connect) \<Rightarrow> nat \<Rightarrow> 'd session \<Rightarrow> ('d session \<times> nat) option" where
  "rebind_loop world k s =
     (if s_state s = 0 then
        (case connectAs (world k) (bindingType s) (dialer s) (auth s) of
           Inl err \<Rightarrow> rebind_loop world (k + 1) s
         | Inr cn \<Rightarrow> Some (s\<lparr>s_r := newClient cn (s_settings s), rebinding := 0\<rparr>, k + 1))
      else Some (s, k))"

definition rebind :: "(nat \<Rightarrow> 'd connect) \<Rightarrow> nat \<Rightarrow> 'd session \<Rightarrow> ('d session \<times> nat) option" where
  "rebind world k s =
     (if rebinding s = 0
      then rebind_loop world k (s\<lparr>rebinding := 1, s_r := client_Close (s_r s)\<rparr>)
      else Some (s, k))"

text \<open>An SMSC that accepts every bind and answers with the role it bound as system id.\<close>

fun roleName :: "BindingType \<Rightarrow> string" where
  "roleName Receiver = ''receiver''"
| "roleName Transmitter = ''transmitter''"
| "roleName Transceiver = ''transceiver''"

definition echoSMSC :: "unit connect" where
  "echoSMSC dl addr req = Inr \<lparr>systemID = roleName (reqBindingType req), conn_open = True\<rparr>"

section \<open>Inputs on which the code is run\<close>

text \<open>
  Two long messages under the splitting octet encoding: 268 characters (two segments
  of 134 octets) and 34304 characters (256 segments of 134 octets).
\<close>

definition message2 :: ShortMessage where
  "message2 = zeroShortMessage\<lparr>message := replicate 268 (CHR ''a''),
      enc := Some octetSplitEncoding, dataCoding := 3\<rparr>"

definition message256 :: ShortMessage where
  "message256 = zeroShortMessage\<lparr>message := replicate 34304 (CHR ''a''),
      enc := Some octetSplitEncoding, dataCoding := 3\<rparr>"

text \<open>
  Short messages: one inside a container PDU that carries no data coding, one segment
  of a concatenated message, one with a UDH and 250 octets of data, a plain one, one
  whose text encodes to 255 octets, one that needs no split, and two that have no
  encoding.
\<close>

definition replaceMessage :: ShortMessage where
  "replaceMessage = zeroShortMessage\<lparr>withoutDataCoding := True, message := ''hi'',
     enc := Some octetEncoding, dataCoding := 3, messageData := [104, 105]\<rparr>"

definition segmentMessage :: ShortMessage where
  "segmentMessage = zeroShortMessage\<lparr>enc := Some octetEncoding, dataCoding := 3,
     messageData := [104, 105], udHeader := [NewIEConcatMessage 2 1 7]\<rparr>"

definition longSegmentMessage :: ShortMessage where
  "longSegmentMessage = zeroShortMessage\<lparr>enc := Some octetEncoding, dataCoding := 3,
     messageData := replicate 250 104, udHeader := [NewIEConcatMessage 2 1 7]\<rparr>"

definition plainMessage :: ShortMessage where
  "plainMessage = zeroShortMessage\<lparr>message := ''hi'', SmDefaultMsgID := 9,
     enc := Some octetEncoding, dataCoding := 3, messageData := [104, 105]\<rparr>"

definition longPlainMessage :: ShortMessage where
  "longPlainMessage = zeroShortMessage\<lparr>message := replicate 255 (CHR ''a''),
     enc := Some octetEncoding, dataCoding := 3\<rparr>"

definition shortSplitMessage :: ShortMessage where
  "shortSplitMessage = zeroShortMessage\<lparr>message := ''hi'', enc := Some octetSplitEncoding\<rparr>"

definition nilEncodingMessage :: ShortMessage where
  "nilEncodingMessage = zeroShortMessage\<lparr>message := ''hi''\<rparr>"

definition nilEncodingLongMessage :: ShortMessage where
  "nilEncodingLongMessage = zeroShortMessage\<lparr>message := replicate 268 (CHR ''a'')\<rparr>"

text \<open>Client settings, a bound connection and credentials.\<close>

definition settings0 :: clientSettings where
  "settings0 = \<lparr>WriteTimeout = Second, ReadTimeout = 0, EnquireLink = 0, OnPDU = True,
     OnSubmitError = True, OnReceivingError = True, OnRebindingError = True, OnClosed = True\<rparr>"

definition conn0 :: Connection where
  "conn0 = \<lparr>systemID = ''MelroseLabsSMSC'', conn_open = True\<rparr>"

definition auth0 :: Auth where
  "auth0 = \<lparr>SMSC = ''smscsim.melroselabs.com:2775'', SystemID = ''sys'', Password = ''pw'', SystemType = []\<rparr>"

section \<open>Properties of ShortMessage\<close>

subsection \<open>GetMessageData\<close>

text \<open>
  C7, as amended.  \<open>GetMessageData\<close> fails only with \<open>ErrUDHTooLong\<close>, and it does so
  exactly when \<open>messageData\<close> is not empty and \<open>UDHL()\<close> reaches its length; whenever it
  does not fail it returns \<open>messageData[UDHL():]\<close>.  An empty \<open>messageData\<close> is returned
  as it is, without an error, whatever the UDH.
\<close>

theorem GetMessageData_skips_udh:
  "(snd (GetMessageData c) = Some ErrUDHTooLong \<longleftrightarrow>
      messageData c \<noteq> [] \<and> UDHL (udHeader c) \<ge> length (messageData c)) \<and>
   (snd (GetMessageData c) = None \<or> snd (GetMessageData c) = Some ErrUDHTooLong) \<and>
   fst (GetMessageData c) =
     (if snd (GetMessageData c) = None then drop (UDHL (udHeader c)) (messageData c) else [])"
  by (simp add: GetMessageData_def Let_def)

text \<open>
  C7 as stated fails at the boundary it names: a message with a concatenation UDH and
  no data has \<open>UDHL() \<ge> len(messageData)\<close>, and \<open>GetMessageData\<close> returns no error.
\<close>

theorem GetMessageData_empty_counterexample:
  "length (messageData (zeroShortMessage\<lparr>udHeader := [NewIEConcatMessage 2 1 7]\<rparr>))
     \<le> UDHL (udHeader (zeroShortMessage\<lparr>udHeader := [NewIEConcatMessage 2 1 7]\<rparr>)) \<and>
   GetMessageData (zeroShortMessage\<lparr>udHeader := [NewIEConcatMessage 2 1 7]\<rparr>) = ([], None)"
  by (simp add: GetMessageData_def zeroShortMessage_def NewIEConcatMessage_def)

subsection \<open>Split: the segments\<close>

text \<open>
  The loop of \<open>Split\<close> over a message with an encoding: one new message per segment,
  numbered from \<open>i + 1\<close>.
\<close>

lemma Split_loop_Some:
  "enc c = Some e \<Longrightarrow>
   \<exists>ms. Split_loop c tot r i segs = Returned (map Fresh ms) \<and> length ms = length segs \<and>
     (\<forall>k<length segs. ms ! k =
        \<lparr>SmDefaultMsgID = 0, dataCoding = DataCoding e, message = [], enc = enc c,
         udHeader = [NewIEConcatMessage tot (of_nat (i + k + 1)) r],
         messageData = segs ! k, withoutDataCoding = withoutDataCoding c\<rparr>)"
proof (induction segs arbitrary: i)
  case Nil
  then show ?case by simp
next
  case (Cons seg segs)
  from Cons.IH [OF Cons.prems, of "i + 1"] obtain ms where
    ms: "Split_loop c tot r (i + 1) segs = Returned (map Fresh ms)" "length ms = length segs"
      "\<forall>k<length segs. ms ! k =
        \<lparr>SmDefaultMsgID = 0, dataCoding = DataCoding e, message = [], enc = enc c,
         udHeader = [NewIEConcatMessage tot (of_nat (i + 1 + k + 1)) r],
         messageData = segs ! k, withoutDataCoding = withoutDataCoding c\<rparr>"
    by blast
  let ?s = "\<lparr>SmDefaultMsgID = 0, dataCoding = DataCoding e, message = [], enc = enc c,
         udHeader = [NewIEConcatMessage tot (of_nat (i + 1)) r],
         messageData = seg, withoutDataCoding = withoutDataCoding c\<rparr>"
  have "Split_loop c tot r i (seg # segs) = Returned (map Fresh (?s # ms))"
    using Cons.prems ms(1) by simp
  moreover have "length (?s # ms) = length (seg # segs)" using ms(2) by simp
  moreover have "\<forall>k<length (seg # segs). (?s # ms) ! k =
        \<lparr>SmDefaultMsgID = 0, dataCoding = DataCoding e, message = [], enc = enc c,
         udHeader = [NewIEConcatMessage tot (of_nat (i + k + 1)) r],
         messageData = (seg # segs) ! k, withoutDataCoding = withoutDataCoding c\<rparr>"
  proof (intro allI impI)
    fix k assume "k < length (seg # segs)"
    then show "(?s # ms) ! k =
        \<lparr>SmDefaultMsgID = 0, dataCoding = DataCoding e, message = [], enc = enc c,
         udHeader = [NewIEConcatMessage tot (of_nat (i + k + 1)) r],
         messageData = (seg # segs) ! k, withoutDataCoding = withoutDataCoding c\<rparr>"
      using ms(3) by (cases k) simp_all
  qed
  ultimately show ?case by blast
qed

text \<open>The split branch of \<open>Split\<close>, whatever the number of segments.\<close>

lemma Split_segments:
  assumes "enc c = Some e" and "splitter e = Some sp"
    and "ShouldSplit sp (message c) SM_GSM_MSG_LEN"
    and "EncodeSplit sp (message c) (SM_GSM_MSG_LEN - 6) = (segs, None)"
  shows "\<exists>ms. Split G rf c = Returned (c, rf + 1, map Fresh ms, None) \<and>
           length ms = length segs \<and>
           (\<forall>k<length segs. ms ! k =
              \<lparr>SmDefaultMsgID = 0, dataCoding = DataCoding e, message = [], enc = enc c,
               udHeader = [NewIEConcatMessage (of_nat (length segs)) (of_nat (k + 1)) (ucast (rf + 1))],
               messageData = segs ! k, withoutDataCoding = withoutDataCoding c\<rparr>)"
proof -
  from Split_loop_Some [OF assms(1), of "of_nat (length segs)" "ucast (rf + 1)" 0 segs]
  obtain ms where
    ms: "Split_loop c (of_nat (length segs)) (ucast (rf + 1)) 0 segs = Returned (map Fresh ms)"
      "length ms = length segs"
      "\<forall>k<length segs. ms ! k =
        \<lparr>SmDefaultMsgID = 0, dataCoding = DataCoding e, message = [], enc = enc c,
         udHeader = [NewIEConcatMessage (of_nat (length segs)) (of_nat (0 + k + 1)) (ucast (rf + 1))],
         messageData = segs ! k, withoutDataCoding = withoutDataCoding c\<rparr>"
    by blast
  have "Split G rf c = Returned (c, rf + 1, map Fresh ms, None)"
    using assms ms(1) by (simp add: Split_def getRefNum_def)
  then show ?thesis using ms(2,3) by auto
qed

text \<open>The octet splitter cuts a text of \<open>k * n\<close> octets into \<open>k\<close> segments.\<close>

lemma chunks_Nil: "chunks n [] = []"
  by (subst chunks.simps) simp

lemma chunks_Cons: "0 < n \<Longrightarrow> xs \<noteq> [] \<Longrightarrow> chunks n xs = take n xs # chunks n (drop n xs)"
  by (subst chunks.simps) simp

lemma length_chunks_mult: "0 < n \<Longrightarrow> length xs = k * n \<Longrightarrow> length (chunks n xs) = k"
proof (induction k arbitrary: xs)
  case 0
  then show ?case by (simp add: chunks_Nil)
next
  case (Suc k)
  from Suc.prems have ne: "xs \<noteq> []" by auto
  have "length (drop n xs) = k * n" using Suc.prems by simp
  with Suc.IH Suc.prems(1) have "length (chunks n (drop n xs)) = k" by blast
  then show ?case using chunks_Cons [OF Suc.prems(1) ne] by simp
qed

text \<open>
  C6, as amended.  Let the message have an encoding with the Splitter capability that
  reports that the message must be split, and let \<open>EncodeSplit\<close> return, without an
  error, between 1 and 255 segments.  Then \<open>Split\<close> returns as many new messages as
  there are segments, without an error; each carries a UDH of one concatenation
  element whose reference is the low byte of the counter just incremented, whose
  total-parts field is the number of segments, and whose part index is its position,
  counted from 1; each carries the \<open>DataCoding()\<close> of the encoding, the encoding, the
  \<open>withoutDataCoding\<close> flag of the original, and its segment as \<open>messageData\<close>.
\<close>

theorem Split_concatenation_udh:
  assumes "enc c = Some e" and "splitter e = Some sp"
    and "ShouldSplit sp (message c) SM_GSM_MSG_LEN"
    and "EncodeSplit sp (message c) (SM_GSM_MSG_LEN - 6) = (segs, None)"
    and "1 \<le> length segs" and "length segs \<le> 255"
  shows "Split G rf c \<noteq> Panic \<and> returnedError (Split G rf c) = None \<and>
         length (returnedSlice (Split G rf c)) = length segs \<and>
         (\<forall>k<length segs.
            returnedSlice (Split G rf c) ! k \<noteq> Self \<and>
            concatRef (freshOf (returnedSlice (Split G rf c) ! k)) = Some (unat (rf + 1) mod 256) \<and>
            concatTotal (freshOf (returnedSlice (Split G rf c) ! k)) = Some (length segs) \<and>
            concatIndex (freshOf (returnedSlice (Split G rf c) ! k)) = Some (k + 1) \<and>
            dataCoding (freshOf (returnedSlice (Split G rf c) ! k)) = DataCoding e \<and>
            enc (freshOf (returnedSlice (Split G rf c) ! k)) = enc c \<and>
            withoutDataCoding (freshOf (returnedSlice (Split G rf c) ! k)) = withoutDataCoding c \<and>
            messageData (freshOf (returnedSlice (Split G rf c) ! k)) = segs ! k)"
proof -
  from Split_segments [OF assms(1-4), of G rf] obtain ms where
    R: "Split G rf c = Returned (c, rf + 1, map Fresh ms, None)" and
    L: "length ms = length segs" and
    N: "\<forall>k<length segs. ms ! k =
              \<lparr>SmDefaultMsgID = 0, dataCoding = DataCoding e, message = [], enc = enc c,
               udHeader = [NewIEConcatMessage (of_nat (length segs)) (of_nat (k + 1)) (ucast (rf + 1))],
               messageData = segs ! k, withoutDataCoding = withoutDataCoding c\<rparr>"
    by blast
  have tot: "unat (of_nat (length segs) :: byte) = length segs"
    using assms(6) by (simp add: unat_of_nat)
  have idx: "unat (of_nat (k + 1) :: byte) = k + 1" if "k < length segs" for k
    using that assms(6) by (simp add: unat_of_nat del: of_nat_add of_nat_Suc)
  have rf8: "unat (ucast (rf + 1) :: byte) = unat (rf + 1) mod 256"
    by (simp add: unsigned_ucast_eq take_bit_eq_mod)
  show ?thesis
    using R L N tot idx rf8
    by (auto simp: concatRef_def concatTotal_def concatIndex_def NewIEConcatMessage_def simp del: of_nat_add of_nat_Suc)
qed

text \<open>A message of 268 octets: two segments, numbered 1 and 2 of 2, with reference 1.\<close>

theorem Split_concatenation_udh_witness:
  "length (returnedSlice (Split octetSplitEncoding 0 message2)) = 2 \<and>
   map (\<lambda>p. concatIndex (freshOf p)) (returnedSlice (Split octetSplitEncoding 0 message2)) = [Some 1, Some 2] \<and>
   map (\<lambda>p. concatTotal (freshOf p)) (returnedSlice (Split octetSplitEncoding 0 message2)) = [Some 2, Some 2] \<and>
   map (\<lambda>p. concatRef (freshOf p)) (returnedSlice (Split octetSplitEncoding 0 message2)) = [Some 1, Some 1]"
proof -
  let ?segs = "chunks 134 (map of_char (message message2)) :: byte list list"
  have len: "length ?segs = 2"
    by (rule length_chunks_mult) (simp_all add: message2_def)
  have e: "enc message2 = Some octetSplitEncoding" by (simp add: message2_def)
  have sp: "splitter octetSplitEncoding = Some octetSplitter"
    by (simp add: octetSplitEncoding_def)
  have sh: "ShouldSplit octetSplitter (message message2) SM_GSM_MSG_LEN"
    by (simp add: octetSplitter_def message2_def SM_GSM_MSG_LEN_def)
  have es: "EncodeSplit octetSplitter (message message2) (SM_GSM_MSG_LEN - 6) = (?segs, None)"
    by (simp add: octetSplitter_def SM_GSM_MSG_LEN_def)
  have l1: "1 \<le> length ?segs" and l2: "length ?segs \<le> 255" using len by simp_all
  note T = Split_concatenation_udh [OF e sp sh es l1 l2, of octetSplitEncoding 0]
  let ?R = "returnedSlice (Split octetSplitEncoding 0 message2)"
  from T len have L: "length ?R = 2" by simp
  from T len have k0: "concatIndex (freshOf (?R ! 0)) = Some 1 \<and> concatTotal (freshOf (?R ! 0)) = Some 2
      \<and> concatRef (freshOf (?R ! 0)) = Some 1"
    by simp
  from T len have k1: "concatIndex (freshOf (?R ! 1)) = Some 2 \<and> concatTotal (freshOf (?R ! 1)) = Some 2
      \<and> concatRef (freshOf (?R ! 1)) = Some 1"
    by simp
  from L obtain a b where ab: "?R = [a, b]"
    by (metis (no_types, lifting) One_nat_def Suc_1 length_0_conv length_Suc_conv)
  show ?thesis using L k0 k1 unfolding ab by simp
qed

text \<open>
  C6 as stated fails for a message that needs 256 segments: the total-parts field is
  one byte, and holds 0.
\<close>

theorem Split_256_segments_counterexample:
  "length (returnedSlice (Split octetSplitEncoding 0 message256)) = 256 \<and>
   concatTotal (freshOf (returnedSlice (Split octetSplitEncoding 0 message256) ! 0)) = Some 0"
proof -
  let ?segs = "chunks 134 (map of_char (message message256)) :: byte list list"
  have len: "length ?segs = 256"
    by (rule length_chunks_mult) (simp_all add: message256_def)
  have e: "enc message256 = Some octetSplitEncoding" by (simp add: message256_def)
  have sp: "splitter octetSplitEncoding = Some octetSplitter"
    by (simp add: octetSplitEncoding_def)
  have sh: "ShouldSplit octetSplitter (message message256) SM_GSM_MSG_LEN"
    by (simp add: octetSplitter_def message256_def SM_GSM_MSG_LEN_def)
  have es: "EncodeSplit octetSplitter (message message256) (SM_GSM_MSG_LEN - 6) = (?segs, None)"
    by (simp add: octetSplitter_def SM_GSM_MSG_LEN_def)
  from Split_segments [OF e sp sh es, of octetSplitEncoding 0] obtain ms where
    R: "Split octetSplitEncoding 0 message256 = Returned (message256, 0 + 1, map Fresh ms, None)" and
    L: "length ms = length ?segs" and
    N: "\<forall>k<length ?segs. ms ! k =
              \<lparr>SmDefaultMsgID = 0, dataCoding = DataCoding octetSplitEncoding, message = [], enc = enc message256,
               udHeader = [NewIEConcatMessage (of_nat (length ?segs)) (of_nat (k + 1)) (ucast (0 + 1 :: 32 word))],
               messageData = ?segs ! k, withoutDataCoding = withoutDataCoding message256\<rparr>"
    by blast
  from N len have "udHeader (ms ! 0) = [NewIEConcatMessage (of_nat 256) (of_nat (0 + 1)) (ucast (0 + 1 :: 32 word))]"
    by simp
  then have "concatTotal (ms ! 0) = Some 0"
    by (simp add: concatTotal_def NewIEConcatMessage_def)
  then show ?thesis using R L len by simp
qed

subsection \<open>Split: a single message\<close>

text \<open>
  C10, as amended.  Let the message have an encoding, and let that encoding not
  implement the Splitter capability, or let its Splitter report that no split is
  needed.  Then \<open>Split\<close> returns, and the slice it returns holds exactly the receiver
  itself, whatever the error; when the encoded form is longer than 254 octets the
  error is \<open>ErrShortMessageLengthTooLarge\<close>, and when \<open>Encode\<close> fails the error is its
  error; in both cases the receiver has taken the octets that \<open>Encode\<close> returned.
\<close>

theorem Split_single_returns_self:
  "enc c = Some e \<Longrightarrow>
   splitter e = None \<or> splitter e = Some sp \<and> \<not> ShouldSplit sp (message c) SM_GSM_MSG_LEN \<Longrightarrow>
   Split G rf c \<noteq> Panic \<and> returnedSlice (Split G rf c) = [Self] \<and>
   (snd (Encode e (message c)) = None \<and> length (fst (Encode e (message c))) > 254 \<longrightarrow>
      Split G rf c = Returned (c\<lparr>messageData := fst (Encode e (message c))\<rparr>, rf, [Self],
                               Some ErrShortMessageLengthTooLarge)) \<and>
   (snd (Encode e (message c)) \<noteq> None \<longrightarrow>
      Split G rf c = Returned (c\<lparr>messageData := fst (Encode e (message c))\<rparr>, rf, [Self],
                               snd (Encode e (message c))))"
  by (auto simp: Split_def SetMessageWithEncoding_def Let_def SM_MSG_LEN_def split: prod.splits option.splits)

text \<open>
  A text of 255 characters under the octet encoding, which has no Splitter: the
  error and the receiver itself are both returned.  A short text under the splitting
  encoding: the receiver itself and no error.
\<close>

theorem Split_single_returns_self_witness:
  "Split octetSplitEncoding 0 longPlainMessage =
     Returned (longPlainMessage\<lparr>messageData := replicate 255 97\<rparr>, 0, [Self],
               Some ErrShortMessageLengthTooLarge) \<and>
   returnedSlice (Split octetSplitEncoding 0 shortSplitMessage) = [Self] \<and>
   returnedError (Split octetSplitEncoding 0 shortSplitMessage) = None"
proof -
  have e: "enc longPlainMessage = Some octetEncoding" by (simp add: longPlainMessage_def)
  have b: "splitter octetEncoding = None \<or>
     splitter octetEncoding = Some octetSplitter \<and>
     \<not> ShouldSplit octetSplitter (message longPlainMessage) SM_GSM_MSG_LEN"
    by (simp add: octetEncoding_def)
  have e': "enc shortSplitMessage = Some octetSplitEncoding" by (simp add: shortSplitMessage_def)
  have b': "splitter octetSplitEncoding = None \<or>
     splitter octetSplitEncoding = Some octetSplitter \<and>
     \<not> ShouldSplit octetSplitter (message shortSplitMessage) SM_GSM_MSG_LEN"
    by (simp add: octetSplitEncoding_def octetSplitter_def shortSplitMessage_def SM_GSM_MSG_LEN_def)
  have r: "returnedError (Split octetSplitEncoding 0 shortSplitMessage) = None"
    by (simp add: Split_def SetMessageWithEncoding_def shortSplitMessage_def octetSplitEncoding_def
        octetSplitter_def octetEncoding_def SM_GSM_MSG_LEN_def SM_MSG_LEN_def)
  show ?thesis
    using Split_single_returns_self [OF e b, of octetSplitEncoding 0]
      Split_single_returns_self [OF e' b', of octetSplitEncoding 0] r
    by (simp add: longPlainMessage_def octetEncoding_def zeroShortMessage_def)
qed

text \<open>
  C10 as stated fails for a message without an encoding: the default encoding
  reports that the empty text needs no split, and \<open>Split\<close> of the zero value panics
  instead of returning the receiver.
\<close>

theorem Split_zero_value_counterexample:
  "enc zeroShortMessage = None \<and>
   splitter octetSplitEncoding = Some octetSplitter \<and>
   \<not> ShouldSplit octetSplitter (message zeroShortMessage) SM_GSM_MSG_LEN \<and>
   Split octetSplitEncoding 0 zeroShortMessage = Panic \<and>
   returnedSlice (Split octetSplitEncoding 0 zeroShortMessage) \<noteq> [Self]"
  by (simp add: Split_def SetMessageWithEncoding_def zeroShortMessage_def octetSplitEncoding_def
      octetSplitter_def octetEncoding_def SM_GSM_MSG_LEN_def)

subsection \<open>Split: no encoding\<close>

text \<open>
  C8.  Let the message have no encoding.  The default encoding decides the branch and
  nothing else: where it has no Splitter or reports that no split is needed, \<open>Split\<close>
  calls \<open>Encode\<close> on the nil encoding and panics; where it splits the text into at
  least one segment, \<open>Split\<close> calls \<open>DataCoding\<close> on the nil encoding and panics.
\<close>

theorem Split_nil_encoding_panics:
  "enc c = None \<Longrightarrow>
   splitter G = None \<or>
   splitter G = Some sp \<and>
     (\<not> ShouldSplit sp (message c) SM_GSM_MSG_LEN \<or>
      EncodeSplit sp (message c) (SM_GSM_MSG_LEN - 6) = (seg # segs, None)) \<Longrightarrow>
   Split G rf c = Panic"
  by (auto simp: Split_def SetMessageWithEncoding_def Let_def)

text \<open>A short text and a text of 268 characters, both without an encoding.\<close>

theorem Split_nil_encoding_panics_witness:
  "Split octetSplitEncoding 0 nilEncodingMessage = Panic \<and>
   Split octetSplitEncoding 0 nilEncodingLongMessage = Panic"
proof -
  have e1: "enc nilEncodingMessage = None" by (simp add: nilEncodingMessage_def zeroShortMessage_def)
  have e2: "enc nilEncodingLongMessage = None" by (simp add: nilEncodingLongMessage_def zeroShortMessage_def)
  have b1: "splitter octetSplitEncoding = None \<or>
     splitter octetSplitEncoding = Some octetSplitter \<and>
     (\<not> ShouldSplit octetSplitter (message nilEncodingMessage) SM_GSM_MSG_LEN \<or>
      EncodeSplit octetSplitter (message nilEncodingMessage) (SM_GSM_MSG_LEN - 6) = ([] # [], None))"
    by (simp add: octetSplitEncoding_def octetSplitter_def nilEncodingMessage_def zeroShortMessage_def SM_GSM_MSG_LEN_def)
  have ch: "chunks 134 (replicate 268 x) = replicate 134 x # tl (chunks 134 (replicate 268 x))" for x :: byte
    by (subst chunks.simps) simp
  have b2: "splitter octetSplitEncoding = None \<or>
     splitter octetSplitEncoding = Some octetSplitter \<and>
     (\<not> ShouldSplit octetSplitter (message nilEncodingLongMessage) SM_GSM_MSG_LEN \<or>
      EncodeSplit octetSplitter (message nilEncodingLongMessage) (SM_GSM_MSG_LEN - 6) =
        (replicate 134 (of_char (CHR ''a'')) # tl (chunks 134 (replicate 268 (of_char (CHR ''a'')))), None))"
    using ch [of "of_char (CHR ''a'')"]
    by (simp add: octetSplitEncoding_def octetSplitter_def nilEncodingLongMessage_def zeroShortMessage_def SM_GSM_MSG_LEN_def)
  show ?thesis using Split_nil_encoding_panics [OF e1 b1] Split_nil_encoding_panics [OF e2 b2] by simp
qed

subsection \<open>Unmarshal and the data coding\<close>

text \<open>
  C9, as amended.  Let \<open>withoutDataCoding\<close> be set.  When the buffer holds
  \<open>sm_default_msg_id\<close>, the length \<open>n\<close> and \<open>n\<close> octets, \<open>Unmarshal\<close> takes the first octet
  as \<open>sm_default_msg_id\<close> (no data coding is read), and still leaves \<open>dataCoding = 0\<close>
  and the encoding that the registry gives for coding 0, whatever the message held
  before, and whatever the \<open>udhi\<close> flag and the outcome of the UDH parser.  When the
  buffer holds fewer than \<open>n\<close> octets after the length, or fewer than two octets,
  \<open>Unmarshal\<close> returns the error of the read and leaves \<open>dataCoding\<close> and the encoding
  as the message held them.
\<close>

theorem Unmarshal_resets_data_coding:
  "withoutDataCoding c \<Longrightarrow>
   (length md = unat n \<longrightarrow>
      (case Unmarshal F c (d # n # md @ rest) udhi of (c', b', err) \<Rightarrow>
         dataCoding c' = 0 \<and> enc c' = F 0 \<and> SmDefaultMsgID c' = d \<and> messageData c' = md \<and> b' = rest)) \<and>
   (length bs < unat n \<longrightarrow>
      (case Unmarshal F c (d # n # bs) udhi of (c', b', err) \<Rightarrow>
         err = Some ErrBufferNotEnoughByteToRead \<and> dataCoding c' = dataCoding c \<and> enc c' = enc c)) \<and>
   (length b < 2 \<longrightarrow>
      (case Unmarshal F c b udhi of (c', b', err) \<Rightarrow>
         err = Some ErrEOF \<and> dataCoding c' = dataCoding c \<and> enc c' = enc c))"
  by (cases b; cases "tl b")
     (auto simp: Unmarshal_def ReadByte_def ReadN_def SetDataCoding_def Let_def split: prod.splits option.splits)

text \<open>
  A message with data coding 3 and the octet encoding: it loses both on a complete
  buffer (the registry has no encoding for coding 0), and keeps both on a buffer that
  announces 5 octets and holds 1, and on a buffer of one octet.
\<close>

theorem Unmarshal_resets_data_coding_witness:
  "dataCoding replaceMessage = 3 \<and> enc replaceMessage = Some octetEncoding \<and>
   Unmarshal octetRegistry replaceMessage [9, 2, 111, 107] False =
     (replaceMessage\<lparr>SmDefaultMsgID := 9, messageData := [111, 107], dataCoding := 0, enc := None\<rparr>, [], None) \<and>
   Unmarshal octetRegistry replaceMessage [9, 5, 1] False =
     (replaceMessage\<lparr>SmDefaultMsgID := 9, messageData := []\<rparr>, [1], Some ErrBufferNotEnoughByteToRead) \<and>
   Unmarshal octetRegistry replaceMessage [9] False =
     (replaceMessage\<lparr>SmDefaultMsgID := 9\<rparr>, [], Some ErrEOF)"
proof -
  have h1: "withoutDataCoding replaceMessage" by (simp add: replaceMessage_def)
  have h2: "length [111, 107 :: byte] = unat (2 :: byte)" by simp
  have h3: "length [1 :: byte] < unat (5 :: byte)" by simp
  have h4: "length [9 :: byte] < 2" by simp
  show ?thesis
    using Unmarshal_resets_data_coding [OF h1, of "[111, 107]" 2 octetRegistry 9 "[]" False "[1]" "[9]"]
      Unmarshal_resets_data_coding [OF h1, of "[]" 5 octetRegistry 9 "[]" False "[1]" "[9]"] h2 h3 h4
    by (simp add: Unmarshal_def ReadByte_def ReadN_def SetDataCoding_def Let_def
       replaceMessage_def zeroShortMessage_def octetRegistry_def)
qed

text \<open>
  C9 as stated fails: on a buffer that announces 5 octets and holds 1, \<open>Unmarshal\<close>
  returns before \<open>SetDataCoding\<close>, and the message keeps its data coding 3 and its
  encoding, which is not the one of coding 0.
\<close>

theorem Unmarshal_failed_read_counterexample:
  "withoutDataCoding replaceMessage \<and>
   dataCoding (fst (Unmarshal octetRegistry replaceMessage [9, 5, 1] False)) = 3 \<and>
   enc (fst (Unmarshal octetRegistry replaceMessage [9, 5, 1] False)) = Some octetEncoding \<and>
   octetRegistry 0 = None"
  by (simp add: Unmarshal_def ReadByte_def ReadN_def SetDataCoding_def Let_def
       replaceMessage_def zeroShortMessage_def octetRegistry_def)

subsection \<open>Marshal and Unmarshal\<close>

text \<open>Without a UDH, \<open>Unmarshal\<close> reads back what \<open>Marshal\<close> wrote.\<close>

lemma Unmarshal_Marshal_plain:
  "length (messageData s) \<le> 255 \<Longrightarrow> udHeader s = [] \<Longrightarrow> withoutDataCoding c = withoutDataCoding s \<Longrightarrow>
   Unmarshal F c (Marshal s [] @ rest) False =
     (c\<lparr>SmDefaultMsgID := SmDefaultMsgID s, messageData := messageData s,
        dataCoding := (if withoutDataCoding s then 0 else dataCoding s),
        enc := F (if withoutDataCoding s then 0 else dataCoding s)\<rparr>, rest, None)"
  by (auto simp: Unmarshal_def Marshal_def ReadByte_def ReadN_def SetDataCoding_def Let_def WriteByte_def Write_def unat_of_nat split: prod.splits option.splits)

text \<open>The UDH codec reads back what it wrote.\<close>

lemma unat_byte: "x \<le> 255 \<Longrightarrow> unat (of_nat x :: byte) = x"
  by (simp add: unat_of_nat)

lemma length_marshalIEs: "length (marshalIEs u) = UDHL u"
  by (induction u) simp_all

lemma unmarshalIEs_marshalIEs:
  "list_all (\<lambda>e. length (Data e) \<le> 255) u \<Longrightarrow> length u \<le> k \<Longrightarrow>
   unmarshalIEs k (marshalIEs u) = (u, None)"
proof (induction u arbitrary: k)
  case Nil
  then show ?case by (cases k) simp_all
next
  case (Cons e u)
  then obtain k' where k: "k = Suc k'" by (cases k) auto
  have l: "unat (of_nat (length (Data e)) :: byte) = length (Data e)"
    using Cons.prems(1) by (simp add: unat_of_nat)
  have "unmarshalIEs k' (marshalIEs u) = (u, None)"
    using Cons.IH [of k'] Cons.prems k by simp
  then show ?case using k l by (cases e) simp
qed

lemma UDHL_ge_length: "length u \<le> UDHL u"
  by (induction u) simp_all

lemma UnmarshalBinary_MarshalBinary:
  assumes "u \<noteq> []" and "list_all (\<lambda>e. length (Data e) \<le> 255) u" and "UDHL u \<le> 255"
  shows "UnmarshalBinary (MarshalBinary u @ rest) = (u, None)"
proof -
  have l: "unat (of_nat (UDHL u) :: byte) = UDHL u" using assms(3) by (simp add: unat_of_nat)
  show ?thesis
    using assms(1) l unmarshalIEs_marshalIEs [OF assms(2) UDHL_ge_length]
    by (simp add: UnmarshalBinary_def MarshalBinary_def length_marshalIEs)
qed

lemma UDHL_pos: "u \<noteq> [] \<Longrightarrow> 0 < UDHL u"
  by (cases u) simp_all

lemma Data_le_UDHL: "e \<in> set u \<Longrightarrow> length (Data e) + 2 \<le> UDHL u"
  by (induction u) auto

lemma length_MarshalBinary: "length (MarshalBinary u) = (if u = [] then 0 else UDHL u + 1)"
  by (simp add: MarshalBinary_def length_marshalIEs)

text \<open>
  With a UDH whose elements and total size fit their length octets, and a sum of
  lengths that fits \<open>sm_length\<close>, the UDH comes back as it was, and \<open>messageData\<close> comes
  back with the octets of the UDH in front.
\<close>

lemma Unmarshal_Marshal_with_udh:
  assumes "udHeader s \<noteq> []" and "list_all (\<lambda>e. length (Data e) \<le> 255) (udHeader s)"
    and "length (messageData s) + UDHL (udHeader s) + 1 \<le> 255"
    and "withoutDataCoding c = withoutDataCoding s"
  shows "Unmarshal F c (Marshal s [] @ rest) True =
     (c\<lparr>SmDefaultMsgID := SmDefaultMsgID s,
        messageData := MarshalBinary (udHeader s) @ messageData s,
        dataCoding := (if withoutDataCoding s then 0 else dataCoding s),
        enc := F (if withoutDataCoding s then 0 else dataCoding s),
        udHeader := udHeader s\<rparr>, rest, None)"
proof -
  let ?u = "udHeader s" and ?md = "messageData s"
  have n: "unat (of_nat (length ?md) :: byte) = length ?md"
    using assms(3) by (simp add: unat_of_nat)
  have lb: "length (MarshalBinary ?u) = UDHL ?u + 1"
    using assms(1) by (simp add: MarshalBinary_def length_marshalIEs)
  have m: "unat (of_nat (length ?md + length (MarshalBinary ?u)) :: byte) = length ?md + UDHL ?u + 1"
  proof -
    have "length ?md + length (MarshalBinary ?u) \<le> 255" using assms(3) lb by simp
    from unat_byte [OF this] lb show ?thesis by simp
  qed
  have pos: "(of_nat (length ?md + length (MarshalBinary ?u)) :: byte) > 0"
    using m by (simp add: word_greater_zero_iff unat_eq_zero[symmetric] del: of_nat_add unat_eq_zero)
  have p: "UnmarshalBinary (MarshalBinary ?u @ ?md) = (?u, None)"
    using UnmarshalBinary_MarshalBinary [OF assms(1,2)] assms(3) by simp
  have M: "Marshal s [] = (if withoutDataCoding s then [] else [dataCoding s]) @
      [SmDefaultMsgID s, of_nat (length ?md + length (MarshalBinary ?u))] @ MarshalBinary ?u @ ?md"
    using assms(1) UDHL_pos [OF assms(1)] n
    by (simp add: Marshal_def Let_def WriteByte_def Write_def del: of_nat_add)
  show ?thesis
    unfolding M using assms(4) m lb pos p
    by (auto simp: Unmarshal_def ReadByte_def ReadN_def SetDataCoding_def Let_def simp del: of_nat_add)
qed

text \<open>
  C5, as amended.  Let \<open>sm_length\<close> fit its octet: \<open>messageData\<close> of \<open>s\<close> and the octets
  of its marshalled UDH (none when \<open>s\<close> has no UDH) are at most 255 together; and let
  the receiver \<open>c\<close> have the \<open>withoutDataCoding\<close> flag of \<open>s\<close>.  Unmarshalling what
  \<open>Marshal\<close> wrote, with \<open>udhi\<close> true exactly when \<open>s\<close> has a UDH, consumes exactly what
  was written and gives back \<open>sm_default_msg_id\<close> of \<open>s\<close>; the UDH of \<open>s\<close> when it has
  one, and otherwise the UDH of the receiver as it was (none in a new message); the
  \<open>dataCoding\<close> of \<open>s\<close> when it was written, and 0 when \<open>withoutDataCoding\<close> is set; and
  as \<open>messageData\<close> the octets of the UDH of \<open>s\<close>, if any, followed by \<open>messageData\<close>
  of \<open>s\<close>.
\<close>

theorem Unmarshal_Marshal_round_trip:
  assumes "length (messageData s) + length (MarshalBinary (udHeader s)) \<le> 255"
    and "withoutDataCoding c = withoutDataCoding s"
  shows "Unmarshal F c (Marshal s [] @ rest) (udHeader s \<noteq> []) =
     (c\<lparr>SmDefaultMsgID := SmDefaultMsgID s,
        messageData := MarshalBinary (udHeader s) @ messageData s,
        dataCoding := (if withoutDataCoding s then 0 else dataCoding s),
        enc := F (if withoutDataCoding s then 0 else dataCoding s),
        udHeader := (if udHeader s = [] then udHeader c else udHeader s)\<rparr>, rest, None)"
proof (cases "udHeader s = []")
  case True
  then have "length (messageData s) \<le> 255" using assms(1) by (simp add: MarshalBinary_def)
  from Unmarshal_Marshal_plain [OF this True assms(2), of F rest] True
  show ?thesis by (simp add: MarshalBinary_def)
next
  case False
  have b: "length (messageData s) + UDHL (udHeader s) + 1 \<le> 255"
    using assms(1) False by (simp add: length_MarshalBinary)
  have "list_all (\<lambda>e. length (Data e) \<le> 255) (udHeader s)"
    unfolding list_all_iff
  proof
    fix e assume "e \<in> set (udHeader s)"
    from Data_le_UDHL [OF this] b show "length (Data e) \<le> 255" by simp
  qed
  from Unmarshal_Marshal_with_udh [OF False this b assms(2), of F rest] False
  show ?thesis by simp
qed

text \<open>
  The plain message and the segment with a concatenation UDH, each unmarshalled into
  the zero value.
\<close>

theorem Unmarshal_Marshal_round_trip_witness:
  "Unmarshal octetRegistry zeroShortMessage (Marshal plainMessage []) False =
     (zeroShortMessage\<lparr>SmDefaultMsgID := 9, messageData := [104, 105], dataCoding := 3,
        enc := Some octetEncoding\<rparr>, [], None) \<and>
   Unmarshal octetRegistry zeroShortMessage (Marshal segmentMessage []) True =
     (zeroShortMessage\<lparr>messageData := [5, 0, 3, 7, 2, 1, 104, 105], dataCoding := 3,
        enc := Some octetEncoding, udHeader := [NewIEConcatMessage 2 1 7]\<rparr>, [], None)"
proof -
  have h1: "length (messageData plainMessage) + length (MarshalBinary (udHeader plainMessage)) \<le> 255"
    by (simp add: plainMessage_def zeroShortMessage_def MarshalBinary_def)
  have h2: "withoutDataCoding zeroShortMessage = withoutDataCoding plainMessage"
    by (simp add: plainMessage_def zeroShortMessage_def)
  have g1: "length (messageData segmentMessage) + length (MarshalBinary (udHeader segmentMessage)) \<le> 255"
    by (simp add: segmentMessage_def zeroShortMessage_def MarshalBinary_def NewIEConcatMessage_def)
  have g2: "withoutDataCoding zeroShortMessage = withoutDataCoding segmentMessage"
    by (simp add: segmentMessage_def zeroShortMessage_def)
  show ?thesis
    using Unmarshal_Marshal_round_trip [OF h1 h2, of octetRegistry "[]"]
      Unmarshal_Marshal_round_trip [OF g1 g2, of octetRegistry "[]"]
    by (simp add: plainMessage_def segmentMessage_def zeroShortMessage_def octetRegistry_def
        MarshalBinary_def NewIEConcatMessage_def)
qed

text \<open>
  C5 as stated fails three times: a message without data coding on the wire loses
  its \<open>dataCoding\<close>; a message with a UDH comes back with the octets of the UDH in front
  of its \<open>messageData\<close>; and a message with a UDH and 250 octets of data, whose
  \<open>sm_length\<close> wraps to 0, comes back without its UDH.
\<close>

theorem Unmarshal_Marshal_counterexample:
  "dataCoding (fst (Unmarshal octetRegistry (zeroShortMessage\<lparr>withoutDataCoding := True\<rparr>)
       (Marshal replaceMessage []) False)) \<noteq> dataCoding replaceMessage \<and>
   messageData (fst (Unmarshal octetRegistry zeroShortMessage (Marshal segmentMessage []) True))
     \<noteq> messageData segmentMessage \<and>
   length (messageData longSegmentMessage) \<le> 255 \<and>
   udHeader (fst (Unmarshal octetRegistry zeroShortMessage (Marshal longSegmentMessage []) True))
     \<noteq> udHeader longSegmentMessage"
  by (simp add: Unmarshal_def Marshal_def ReadByte_def ReadN_def SetDataCoding_def Let_def
     WriteByte_def Write_def replaceMessage_def segmentMessage_def longSegmentMessage_def zeroShortMessage_def
     NewIEConcatMessage_def MarshalBinary_def octetRegistry_def split: prod.splits option.splits)

section \<open>Properties of the writer\<close>

text \<open>
  C2, as amended.  For a write error with \<open>n = 0\<close> that is a network error, \<open>check\<close>
  reports closing, and starts the close with \<open>ConnectionIssue\<close>, exactly when the error
  is a timeout or is not temporary.
\<close>

theorem check_network_error_closing: "fst (check t p 0 (Some (NetError tmo tmp))) = (tmo \<or> \<not> tmp) \<and>
  (GoClose ConnectionIssue \<in> set (snd (check t p 0 (Some (NetError tmo tmp)))) \<longleftrightarrow> tmo \<or> \<not> tmp)"
  by (auto simp: check_def Let_def)

text \<open>
  C2 as stated fails: a network error that is a timeout and temporary, with \<open>n = 0\<close>,
  makes \<open>check\<close> report closing and start the close with \<open>ConnectionIssue\<close>.
\<close>

theorem check_transient_timeout_counterexample: "check (newWriter \<lparr>timeout = Second, enquireLink = 0, onSubmitError = False\<rparr>) (OtherPDU 0) 0 (Some (NetError True True))
   = (True, [GoClose ConnectionIssue])"
  by (simp add: check_def newWriter_def normalize_def Let_def)

text \<open>
  C3, on the code.  A writer created with \<open>enquireLink = 0\<close> has its interval raised to
  20 seconds by \<open>normalize\<close>; \<open>start\<close> launches the loop with the ticker, and a tick
  writes an EnquireLink PDU.  The same holds for the writer of a client whose settings
  have \<open>EnquireLink = 0\<close>.
\<close>

theorem enquireLink_zero_is_clamped: "enquireLink (normalize (s\<lparr>enquireLink := 0\<rparr>)) = 20 * Second \<and>
  start (newWriter (s\<lparr>enquireLink := 0\<rparr>)) = LoopWithEnquireLink \<and>
  tickerPeriod (newWriter (s\<lparr>enquireLink := 0\<rparr>)) = 20 * Second \<and>
  run (newWriter (s\<lparr>enquireLink := 0\<rparr>)) [Tick (n, None)] = [ConnWrite EnquireLinkPDU] \<and>
  start (writer (newClient cn (st\<lparr>EnquireLink := 0\<rparr>))) = LoopWithEnquireLink"
  by (simp add: normalize_def newWriter_def start_def tickerPeriod_def run_def check_def
      EnquireLinkIntervalMinimum_def Second_def newClient_def)

section \<open>Properties of the client\<close>

text \<open>
  C1, as amended.  When the writer reports \<open>ConnectionIssue\<close> and the reader is open,
  the client closes the reader with \<open>ExplicitClosing\<close>, which closes the connection;
  when the reader reports \<open>InvalidStreaming\<close> or \<open>UnbindClosing\<close> and the writer is open,
  the client closes the writer with \<open>ExplicitClosing\<close>, which writes the Unbind and
  closes the connection.  The report of the peer is absorbed, and the user's callback,
  when there is one, is then called once with the state reported.
\<close>

theorem peer_closed_with_ExplicitClosing:
  "(r_state (reader c) = 0 \<longrightarrow>
      trace (writer_onClosed ConnectionIssue c) =
        trace c @ [ReaderClose ExplicitClosing, ConnClose ByReader] @
          (if OnClosed (settings c) then [OnClosedCall ConnectionIssue] else []) \<and>
      r_state (reader (writer_onClosed ConnectionIssue c)) = 1 \<and>
      \<not> conn_open (conn (writer_onClosed ConnectionIssue c))) \<and>
   (w_state (writer c) = 0 \<and> (st = InvalidStreaming \<or> st = UnbindClosing) \<longrightarrow>
      trace (reader_onClosed st c) =
        trace c @ [WriterClose ExplicitClosing, WriteUnbind, ConnClose ByWriter] @
          (if OnClosed (settings c) then [OnClosedCall st] else []) \<and>
      w_state (writer (reader_onClosed st c)) = 1 \<and>
      \<not> conn_open (conn (reader_onClosed st c)))"
  by (auto simp: Let_def emit_def conn_Close_def notifyOnClosed_def)

text \<open>
  The two close paths on a new client: the engine that fails closes the connection,
  the peer is closed with \<open>ExplicitClosing\<close> and closes it again, and the user's
  callback gets the state of the engine that failed.
\<close>

theorem peer_closed_with_ExplicitClosing_witness:
  "trace (writer_close ConnectionIssue (newClient conn0 settings0)) =
     [WriterClose ConnectionIssue, WriteUnbind, ConnClose ByWriter,
      ReaderClose ExplicitClosing, ConnClose ByReader, OnClosedCall ConnectionIssue] \<and>
   trace (reader_close UnbindClosing (newClient conn0 settings0)) =
     [ReaderClose UnbindClosing, ConnClose ByReader,
      WriterClose ExplicitClosing, WriteUnbind, ConnClose ByWriter, OnClosedCall UnbindClosing]"
proof -
  let ?c1 = "conn_Close ByWriter (emit WriteUnbind (emit (WriterClose ConnectionIssue) (newClient conn0 settings0)))"
  let ?c2 = "conn_Close ByReader (emit (ReaderClose UnbindClosing) ((newClient conn0 settings0)\<lparr>reader := (reader (newClient conn0 settings0))\<lparr>r_state := 1\<rparr>\<rparr>))"
  have r: "r_state (reader ?c1) = 0"
    by (simp add: emit_def conn_Close_def newClient_def newReader_def)
  have w: "w_state (writer ?c2) = 0 \<and> (UnbindClosing = InvalidStreaming \<or> UnbindClosing = UnbindClosing)"
    by (simp add: emit_def conn_Close_def newClient_def newWriter_def)
  show ?thesis
    using peer_closed_with_ExplicitClosing [of ?c1 UnbindClosing]
      peer_closed_with_ExplicitClosing [of ?c2 UnbindClosing] r w
    by (simp add: Let_def emit_def conn_Close_def newClient_def newReader_def newWriter_def settings0_def conn0_def)
qed

text \<open>
  C1 as stated fails: on the writer's report of \<open>ConnectionIssue\<close> the reader is closed
  with \<open>ExplicitClosing\<close>, not with \<open>StoppingProcessOnly\<close>, and its close closes the
  connection.
\<close>

theorem peer_close_state_counterexample:
  "ReaderClose StoppingProcessOnly \<notin> set (trace (writer_onClosed ConnectionIssue (newClient conn0 settings0))) \<and>
   ReaderClose ExplicitClosing \<in> set (trace (writer_onClosed ConnectionIssue (newClient conn0 settings0))) \<and>
   ConnClose ByReader \<in> set (trace (writer_onClosed ConnectionIssue (newClient conn0 settings0))) \<and>
   conn_open (conn (writer_onClosed ConnectionIssue (newClient conn0 settings0))) = False"
  by (simp add: Let_def emit_def conn_Close_def notifyOnClosed_def newClient_def newReader_def newWriter_def settings0_def conn0_def)

section \<open>Properties of the session\<close>

text \<open>
  C4, on the code.  \<open>NewReceiverSession\<close> sends a bind request of type Transmitter, and
  the session it returns keeps Transmitter as its binding type.
\<close>

theorem NewReceiverSession_binds_as_Transmitter: "NewReceiverSession connect dl au st iv =
   (case connect dl (SMSC au) (BindRequest Transmitter (SystemID au) (Password au) (SystemType au)) of
      Inl err \<Rightarrow> Inl err
    | Inr cn \<Rightarrow> newSession (\<lambda>d a q. Inr cn) Transmitter dl au st iv) \<and>
   map_sum id bindingType (NewReceiverSession connect dl au st iv) =
   map_sum id (\<lambda>cn. Transmitter) (connect dl (SMSC au) (BindRequest Transmitter (SystemID au) (Password au) (SystemType au)))"
  by (simp add: NewReceiverSession_def newSession_def connectAs_def newBindRequest_def Let_def split: sum.splits)

text \<open>The SMSC that names the role it bound answers "transmitter" to a receiver session.\<close>

lemma NewReceiverSession_echo: "map_sum id (\<lambda>s. (bindingType s, systemID (conn (s_r s)))) (NewReceiverSession echoSMSC () auth0 settings0 0)
  = Inr (Transmitter, ''transmitter'')"
  by (simp add: NewReceiverSession_def newSession_def connectAs_def newBindRequest_def Let_def echoSMSC_def newClient_def)

text \<open>A rebind whose dial succeeds binds with the binding type stored in the session.\<close>

lemma rebind_loop_binds_with_stored_type:
  "s_state s = 0 \<Longrightarrow>
   world k (dialer s) (SMSC (auth s)) (newBindRequest (auth s) (bindingType s)) = Inr cn \<Longrightarrow>
   rebind_loop world k s = Some (s\<lparr>s_r := newClient cn (s_settings s), rebinding := 0\<rparr>, k + 1)"
  by (subst rebind_loop.simps) (simp add: connectAs_def)

end
